theory Spec2Isabelle
  imports Complex_Main "HOL-Library.Sublist"
begin

section \<open>Python values, exceptions and calls\<close>

text \<open>
  The values that parameter groups and results are built from: integers, \<open>None\<close>,
  tuples and lists. Floats and strings are left out; for the values kept here
  \<open>str\<close> and \<open>repr\<close> coincide.
\<close>

datatype pyval = PInt int | PNone | PTuple "pyval list" | PList "pyval list"

text \<open>
  Exception classes. \<open>TypeError\<close> is the one class that \<open>bench_compare_multiple\<close>
  catches; the others stand for classes that do not derive from it.
\<close>

datatype exn = TypeError | ValueError | ZeroDivisionError | RuntimeError

datatype outcome = Returns pyval | Raises exn

text \<open>
  A callable is given by the numbers of positional arguments its signature binds
  and by what its body does with the bound arguments. The body is a function of the
  arguments alone.
\<close>

record callable =
  accepts :: "nat \<Rightarrow> bool"
  body :: "pyval list \<Rightarrow> outcome"

text \<open>
  \<open>fn(a1, ..., an)\<close>: Python raises \<open>TypeError\<close> when the arguments do not bind to
  the signature, and runs the body otherwise.
\<close>

definition call :: "callable \<Rightarrow> pyval list \<Rightarrow> outcome" where
  "call fn args = (if accepts fn (length args) then body fn args else Raises TypeError)"

text \<open>Iterable unpacking \<open>*pg\<close>: integers and \<open>None\<close> are not iterable.\<close>

fun unpack :: "pyval \<Rightarrow> pyval list option" where
  "unpack (PTuple xs) = Some xs"
| "unpack (PList xs) = Some xs"
| "unpack (PInt i) = None"
| "unpack PNone = None"

text \<open>\<open>fn( *pg)\<close>: a \<open>pg\<close> that is not iterable raises \<open>TypeError\<close> before the call.\<close>

definition star_call :: "callable \<Rightarrow> pyval \<Rightarrow> outcome" where
  "star_call fn pg = (case unpack pg of None \<Rightarrow> Raises TypeError | Some args \<Rightarrow> call fn args)"

section \<open>Rendering\<close>

text \<open>The decimal digit of a number below ten.\<close>

definition digit_char :: "nat \<Rightarrow> char" where
  "digit_char n = ''0123456789'' ! n"

fun str_nat :: "nat \<Rightarrow> string" where
  "str_nat n = (if n < 10 then [digit_char n] else str_nat (n div 10) @ [digit_char (n mod 10)])"

definition str_int :: "int \<Rightarrow> string" where
  "str_int i = (if i < 0 then CHR ''-'' # str_nat (nat (- i)) else str_nat (nat i))"

fun join_comma :: "string list \<Rightarrow> string" where
  "join_comma [] = []"
| "join_comma [s] = s"
| "join_comma (s # t # ss) = s @ '', '' @ join_comma (t # ss)"

text \<open>\<open>str\<close> of a value; a one-element tuple is written with a trailing comma.\<close>

fun py_str :: "pyval \<Rightarrow> string" where
  "py_str (PInt i) = str_int i"
| "py_str PNone = ''None''"
| "py_str (PTuple xs) =
     (case xs of [x] \<Rightarrow> ''('' @ py_str x @ '',)''
      | _ \<Rightarrow> ''('' @ join_comma (map py_str xs) @ '')'')"
| "py_str (PList xs) = ''['' @ join_comma (map py_str xs) @ '']''"

section \<open>The world: clock, standard output, logger\<close>

text \<open>
  One output line per \<open>print\<close> call, kept with its fields: \<open>Title\<close> is the line of
  \<open>title_str\<close>, \<open>Ans\<close> the line of \<open>ans_str\<close>, \<open>Time\<close> the line of \<open>time_str\<close>.
\<close>

datatype line = Title string | Ans string pyval pyval | Time real

text \<open>The three templates of the source; the text of a float is a parameter.\<close>

fun format_line :: "(real \<Rightarrow> string) \<Rightarrow> line \<Rightarrow> string" where
  "format_line sf (Title name) = ''Testing '' @ name @ '':''"
| "format_line sf (Ans name params ans) =
     CHR 0x09 # name @ ''('' @ py_str params @ '') = '' @ py_str ans"
| "format_line sf (Time t) = CHR 0x09 # ''Time = '' @ sf t"

text \<open>
  The \<open>logger\<close> argument is either a plain callable or an object with a \<open>log\<close>
  method; \<open>sink_call\<close> is one call made to it.
\<close>

datatype logger = PlainCallable | LeveledLogger

datatype sink_call = CalledWith string | LoggedAt nat string

text \<open>An invocation attempt: \<open>fn( *pg)\<close> or \<open>fn(pg)\<close>, with the name of \<open>fn\<close>.\<close>

datatype attempt = Positional string pyval | WholeGroup string pyval

text \<open>
  What the function does, in the order in which it does it: the clock read with its
  index, an invocation attempt, a line printed.
\<close>

datatype event = ClockRead nat | Invoked attempt | Printed line

text \<open>
  \<open>clock\<close> is the sequence of values that successive \<open>time.time()\<close> calls return and
  \<open>reads\<close> counts the calls made so far. \<open>stdout\<close> holds what \<open>print\<close> wrote,
  \<open>sink_calls\<close> the calls made to the logger, \<open>attempts\<close> the invocation attempts,
  and \<open>trace\<close> all clock reads, attempts and prints in the order of execution.
  Clock values are reals, and the subtraction of two of them is exact.
\<close>

record world =
  clock :: "nat \<Rightarrow> real"
  reads :: nat
  stdout :: "line list"
  sink_calls :: "sink_call list"
  attempts :: "attempt list"
  trace :: "event list"

definition init_world :: "(nat \<Rightarrow> real) \<Rightarrow> world" where
  "init_world c = \<lparr>clock = c, reads = 0, stdout = [], sink_calls = [], attempts = [],
                  trace = []\<rparr>"

definition time_time :: "world \<Rightarrow> real \<times> world" where
  "time_time w =
     (clock w (reads w),
      w\<lparr>reads := Suc (reads w), trace := trace w @ [ClockRead (reads w)]\<rparr>)"

definition print_line :: "line \<Rightarrow> world \<Rightarrow> world" where
  "print_line l w = w\<lparr>stdout := stdout w @ [l], trace := trace w @ [Printed l]\<rparr>"

definition note_attempt :: "attempt \<Rightarrow> world \<Rightarrow> world" where
  "note_attempt a w = w\<lparr>attempts := attempts w @ [a], trace := trace w @ [Invoked a]\<rparr>"

section \<open>bench_compare_multiple\<close>

text \<open>
  The body of the \<open>try\<close>: \<open>start = time.time(); result = fn( *pg);
  exec = time.time() - start\<close>. An exception of the call leaves the block before the
  second clock read.
\<close>

definition try_positional :: "string \<Rightarrow> callable \<Rightarrow> pyval \<Rightarrow> world \<Rightarrow> (exn + pyval \<times> real) \<times> world" where
  "try_positional name fn pg w =
     (let (start, w1) = time_time w;
          w2 = note_attempt (Positional name pg) w1
      in case star_call fn pg of
           Raises e \<Rightarrow> (Inl e, w2)
         | Returns result \<Rightarrow>
             (let (fin, w3) = time_time w2 in (Inr (result, fin - start), w3)))"

text \<open>
  The body of \<open>except TypeError\<close>: \<open>start = time.time(); result = fn(pg);
  exec = time.time() - start\<close>.
\<close>

definition try_whole :: "string \<Rightarrow> callable \<Rightarrow> pyval \<Rightarrow> world \<Rightarrow> (exn + pyval \<times> real) \<times> world" where
  "try_whole name fn pg w =
     (let (start, w1) = time_time w;
          w2 = note_attempt (WholeGroup name pg) w1
      in case call fn [pg] of
           Raises e \<Rightarrow> (Inl e, w2)
         | Returns result \<Rightarrow>
             (let (fin, w3) = time_time w2 in (Inr (result, fin - start), w3)))"

text \<open>The \<open>try ... except TypeError\<close> statement: only \<open>TypeError\<close> is handled.\<close>

definition timed_call :: "string \<Rightarrow> callable \<Rightarrow> pyval \<Rightarrow> world \<Rightarrow> (exn + pyval \<times> real) \<times> world" where
  "timed_call name fn pg w =
     (case try_positional name fn pg w of
        (Inl TypeError, w') \<Rightarrow> try_whole name fn pg w'
      | (Inl e, w') \<Rightarrow> (Inl e, w')
      | (Inr r, w') \<Rightarrow> (Inr r, w'))"

text \<open>The inner loop \<open>for pg in param_groups\<close>; an exception leaves it.\<close>

fun run_groups :: "string \<Rightarrow> callable \<Rightarrow> pyval list \<Rightarrow> world \<Rightarrow> (exn + unit) \<times> world" where
  "run_groups name fn [] w = (Inr (), w)"
| "run_groups name fn (pg # pgs) w =
     (case timed_call name fn pg w of
        (Inl e, w') \<Rightarrow> (Inl e, w')
      | (Inr (result, exec), w') \<Rightarrow>
          run_groups name fn pgs
            (print_line (Time exec) (print_line (Ans name pg result) w')))"

text \<open>The outer loop \<open>for name, fn in fn_names.items()\<close>.\<close>

fun run_fns :: "pyval list \<Rightarrow> (string \<times> callable) list \<Rightarrow> world \<Rightarrow> (exn + unit) \<times> world" where
  "run_fns pgs [] w = (Inr (), w)"
| "run_fns pgs ((name, fn) # fns) w =
     (case run_groups name fn pgs (print_line (Title name) w) of
        (Inl e, w') \<Rightarrow> (Inl e, w')
      | (Inr u, w') \<Rightarrow> run_fns pgs fns w')"

text \<open>
  \<open>bench_compare_multiple(logger, *param_groups, **fn_names)\<close>. The keyword
  dictionary is the list of its items in insertion order. The function never
  refers to \<open>logger\<close>.
\<close>

definition bench_compare_multiple ::
  "logger \<Rightarrow> pyval list \<Rightarrow> (string \<times> callable) list \<Rightarrow> world \<Rightarrow> (exn + unit) \<times> world" where
  "bench_compare_multiple logger param_groups fn_names w = run_fns param_groups fn_names w"

section \<open>Callables and clocks of the worked scenarios\<close>

text \<open>Python's \<open>+\<close> on the values modelled: any other pairing raises \<open>TypeError\<close>.\<close>

fun py_add :: "pyval \<Rightarrow> pyval \<Rightarrow> outcome" where
  "py_add (PInt a) (PInt b) = Returns (PInt (a + b))"
| "py_add (PTuple xs) (PTuple ys) = Returns (PTuple (xs @ ys))"
| "py_add (PList xs) (PList ys) = Returns (PList (xs @ ys))"
| "py_add a b = Raises TypeError"

text \<open>\<open>sum(seq)\<close>: start from \<open>0\<close> and add the items from left to right.\<close>

fun sum_from :: "pyval \<Rightarrow> pyval list \<Rightarrow> outcome" where
  "sum_from acc [] = Returns acc"
| "sum_from acc (x # xs) =
     (case py_add acc x of Raises e \<Rightarrow> Raises e | Returns acc' \<Rightarrow> sum_from acc' xs)"

definition py_sum :: "pyval \<Rightarrow> outcome" where
  "py_sum seq = (case unpack seq of None \<Rightarrow> Raises TypeError | Some xs \<Rightarrow> sum_from (PInt 0) xs)"

text \<open>\<open>lambda a, b: a + b\<close>\<close>

definition add_fn :: callable where
  "add_fn = \<lparr>accepts = (\<lambda>n. n = 2),
            body = (\<lambda>args. case args of [a, b] \<Rightarrow> py_add a b | _ \<Rightarrow> Raises TypeError)\<rparr>"

text \<open>\<open>lambda seq: sum(seq)\<close>\<close>

definition sum_seq_fn :: callable where
  "sum_seq_fn = \<lparr>accepts = (\<lambda>n. n = 1),
            body = (\<lambda>args. case args of [seq] \<Rightarrow> py_sum seq | _ \<Rightarrow> Raises TypeError)\<rparr>"

text \<open>A callable \<open>def f( *args): raise e\<close>: it binds any arguments and raises \<open>e\<close>.\<close>

definition raising_fn :: "exn \<Rightarrow> callable" where
  "raising_fn e = \<lparr>accepts = (\<lambda>n. True), body = (\<lambda>args. Raises e)\<rparr>"

text \<open>The parameter groups \<open>(1, 2)\<close> and \<open>(3, 4)\<close>.\<close>

definition two_groups :: "pyval list" where
  "two_groups = [PTuple [PInt 1, PInt 2], PTuple [PInt 3, PInt 4]]"

text \<open>
  A clock that stands still, one that advances by a second from each read to the next,
  and one that is set back by a second from each read to the next.
\<close>

definition frozen_clock :: "nat \<Rightarrow> real" where
  "frozen_clock n = 0"

definition ticking_clock :: "nat \<Rightarrow> real" where
  "ticking_clock n = real n"

definition falling_clock :: "nat \<Rightarrow> real" where
  "falling_clock n = 5 - real n"

section \<open>Vocabulary of the properties\<close>

text \<open>
  What the \<open>try ... except TypeError\<close> makes of one callable and one parameter
  group: the outcome of \<open>fn( *pg)\<close>, unless that is a \<open>TypeError\<close>, in which case it
  is the outcome of \<open>fn(pg)\<close>.
\<close>

definition pair_outcome :: "callable \<Rightarrow> pyval \<Rightarrow> outcome" where
  "pair_outcome fn pg = (case star_call fn pg of Raises TypeError \<Rightarrow> call fn [pg] | r \<Rightarrow> r)"

definition succeeds :: "callable \<Rightarrow> pyval \<Rightarrow> bool" where
  "succeeds fn pg = (case pair_outcome fn pg of Returns v \<Rightarrow> True | Raises e \<Rightarrow> False)"

text \<open>A line without its result and its elapsed time.\<close>

datatype shape = HeaderOf string | ResultOf string pyval | TimingOf

fun shape_of :: "line \<Rightarrow> shape" where
  "shape_of (Title name) = HeaderOf name"
| "shape_of (Ans name params ans) = ResultOf name params"
| "shape_of (Time t) = TimingOf"

fun is_header :: "line \<Rightarrow> bool" where
  "is_header (Title name) = True"
| "is_header l = False"

fun is_result :: "line \<Rightarrow> bool" where
  "is_result (Ans name params ans) = True"
| "is_result l = False"

fun is_timing :: "line \<Rightarrow> bool" where
  "is_timing (Time t) = True"
| "is_timing l = False"

text \<open>
  The output of a run in which every invocation returns: callable by callable in the
  order of the mapping, a header and then, group by group in the order supplied, a
  result line followed by a timing line.
\<close>

definition expected_groups :: "string \<Rightarrow> pyval list \<Rightarrow> shape list" where
  "expected_groups name pgs = concat (map (\<lambda>pg. [ResultOf name pg, TimingOf]) pgs)"

definition expected_shape :: "(string \<times> callable) list \<Rightarrow> pyval list \<Rightarrow> shape list" where
  "expected_shape fns pgs =
     concat (map (\<lambda>(name, fn). HeaderOf name # expected_groups name pgs) fns)"

text \<open>The lines printed between the worlds \<open>w\<close> and \<open>w'\<close>.\<close>

definition emitted :: "world \<Rightarrow> world \<Rightarrow> line list" where
  "emitted w w' = drop (length (stdout w)) (stdout w')"

text \<open>The lines among the events, and the events added between two worlds.\<close>

fun printed_of :: "event list \<Rightarrow> line list" where
  "printed_of [] = []"
| "printed_of (Printed l # es) = l # printed_of es"
| "printed_of (e # es) = printed_of es"

definition traced :: "world \<Rightarrow> world \<Rightarrow> event list" where
  "traced w w' = drop (length (trace w)) (trace w')"

text \<open>
  The attempt \<open>a\<close> of callable \<open>fn\<close> on the group \<open>pg\<close> is the one that returned
  \<open>v\<close>: the positional call, or the fallback call after the positional call raised
  \<open>TypeError\<close>.
\<close>

definition attempt_returns :: "callable \<Rightarrow> string \<Rightarrow> pyval \<Rightarrow> attempt \<Rightarrow> pyval \<Rightarrow> bool" where
  "attempt_returns fn name pg a v \<longleftrightarrow>
     (a = Positional name pg \<and> star_call fn pg = Returns v)
     \<or> (a = WholeGroup name pg \<and> star_call fn pg = Raises TypeError \<and> call fn [pg] = Returns v)"

text \<open>
  The events \<open>pre\<close> end with a clock read, an attempt that returned, the next clock
  read and the result line of that attempt, and \<open>t\<close> is the difference of the two
  reads. A trace is timed when the events before each of its timing lines are of
  this form.
\<close>

definition measured ::
  "(nat \<Rightarrow> real) \<Rightarrow> (string \<times> callable) set \<Rightarrow> pyval set \<Rightarrow> event list \<Rightarrow> real \<Rightarrow> bool" where
  "measured c F P pre t \<longleftrightarrow>
     (\<exists>pre0 k a name fn pg v.
        pre = pre0 @ [ClockRead k, Invoked a, ClockRead (Suc k), Printed (Ans name pg v)]
        \<and> (name, fn) \<in> F \<and> pg \<in> P \<and> attempt_returns fn name pg a v
        \<and> t = c (Suc k) - c k)"

definition timed_trace ::
  "(nat \<Rightarrow> real) \<Rightarrow> (string \<times> callable) set \<Rightarrow> pyval set \<Rightarrow> event list \<Rightarrow> bool" where
  "timed_trace c F P tr \<longleftrightarrow>
     (\<forall>pre t post. tr = pre @ Printed (Time t) # post \<longrightarrow> measured c F P pre t)"

section \<open>One timed invocation\<close>

text \<open>
  The three ways through the \<open>try\<close> statement. When \<open>fn( *pg)\<close> returns, the two
  clock reads are the ones around it. When it raises \<open>TypeError\<close>, a third read
  starts the fallback and the elapsed time is taken around \<open>fn(pg)\<close> alone. Any
  other exception, and any exception of the fallback, leaves the statement.
\<close>

lemma timed_call_eq:
  "timed_call name fn pg w =
     (case star_call fn pg of
        Returns v \<Rightarrow>
          (Inr (v, clock w (Suc (reads w)) - clock w (reads w)),
           w\<lparr>reads := reads w + 2, attempts := attempts w @ [Positional name pg],
             trace := trace w @ [ClockRead (reads w), Invoked (Positional name pg),
                                 ClockRead (Suc (reads w))]\<rparr>)
      | Raises TypeError \<Rightarrow>
          (case call fn [pg] of
             Returns v \<Rightarrow>
               (Inr (v, clock w (reads w + 2) - clock w (Suc (reads w))),
                w\<lparr>reads := reads w + 3,
                  attempts := attempts w @ [Positional name pg, WholeGroup name pg],
                  trace := trace w @ [ClockRead (reads w), Invoked (Positional name pg),
                                      ClockRead (Suc (reads w)), Invoked (WholeGroup name pg),
                                      ClockRead (reads w + 2)]\<rparr>)
           | Raises e \<Rightarrow>
               (Inl e,
                w\<lparr>reads := reads w + 2,
                  attempts := attempts w @ [Positional name pg, WholeGroup name pg],
                  trace := trace w @ [ClockRead (reads w), Invoked (Positional name pg),
                                      ClockRead (Suc (reads w)),
                                      Invoked (WholeGroup name pg)]\<rparr>))
      | Raises e \<Rightarrow>
          (Inl e,
           w\<lparr>reads := Suc (reads w), attempts := attempts w @ [Positional name pg],
             trace := trace w @ [ClockRead (reads w), Invoked (Positional name pg)]\<rparr>))"
  by (simp add: timed_call_def try_positional_def try_whole_def time_time_def note_attempt_def
      split: outcome.splits exn.splits)

lemma timed_call_raises:
  "pair_outcome fn pg = Raises e \<Longrightarrow> fst (timed_call name fn pg w) = Inl e"
  by (auto simp: timed_call_eq pair_outcome_def split: outcome.splits exn.splits)

lemma timed_call_returns:
  "pair_outcome fn pg = Returns v \<Longrightarrow> \<exists>t. fst (timed_call name fn pg w) = Inr (v, t)"
  by (auto simp: timed_call_eq pair_outcome_def split: outcome.splits exn.splits)

lemma timed_call_frame:
  "stdout (snd (timed_call name fn pg w)) = stdout w"
  "sink_calls (snd (timed_call name fn pg w)) = sink_calls w"
  "clock (snd (timed_call name fn pg w)) = clock w"
  "reads w \<le> reads (snd (timed_call name fn pg w))"
  by (auto simp: timed_call_eq split: outcome.splits exn.splits)

section \<open>The two loops\<close>

text \<open>Running a list of groups, or of callables, in two parts; an exception in the first part ends the run.\<close>

lemma run_groups_append:
  "run_groups name fn (xs @ ys) w =
     (case run_groups name fn xs w of
        (Inl e, w') \<Rightarrow> (Inl e, w')
      | (Inr u, w') \<Rightarrow> run_groups name fn ys w')"
  by (induction xs arbitrary: w) (auto split: prod.splits sum.splits)

lemma run_fns_append:
  "run_fns pgs (fs @ gs) w =
     (case run_fns pgs fs w of
        (Inl e, w') \<Rightarrow> (Inl e, w')
      | (Inr u, w') \<Rightarrow> run_fns pgs gs w')"
  by (induction fs arbitrary: w) (auto split: prod.splits sum.splits)

text \<open>A loop returns normally exactly when every invocation in it returns.\<close>

lemma run_groups_completes_iff:
  "fst (run_groups name fn pgs w) = Inr () \<longleftrightarrow> list_all (succeeds fn) pgs"
proof (induction pgs arbitrary: w)
  case Nil
  show ?case by simp
next
  case (Cons pg pgs)
  show ?case
  proof (cases "pair_outcome fn pg")
    case (Returns v)
    then obtain t where "fst (timed_call name fn pg w) = Inr (v, t)"
      using timed_call_returns by blast
    then show ?thesis
      using Returns Cons.IH by (auto simp: succeeds_def split: prod.splits)
  next
    case (Raises e)
    then have "fst (timed_call name fn pg w) = Inl e"
      by (rule timed_call_raises)
    then show ?thesis
      using Raises by (auto simp: succeeds_def split: prod.splits)
  qed
qed

text \<open>
  What a loop prints is an initial segment of the expected output, and all of it
  when the loop returns normally.
\<close>

lemma run_groups_shape:
  "\<exists>xs. map shape_of (stdout (snd (run_groups name fn pgs w))) = map shape_of (stdout w) @ xs
      \<and> prefix xs (expected_groups name pgs)
      \<and> (fst (run_groups name fn pgs w) = Inr () \<longrightarrow> xs = expected_groups name pgs)"
proof (induction pgs arbitrary: w)
  case Nil
  show ?case by (simp add: expected_groups_def)
next
  case (Cons pg pgs)
  obtain r w1 where tc: "timed_call name fn pg w = (r, w1)"
    by (cases "timed_call name fn pg w")
  have out1: "stdout w1 = stdout w"
    using timed_call_frame(1) [of name fn pg w] tc by simp
  show ?case
  proof (cases r)
    case (Inl e)
    have stop: "run_groups name fn (pg # pgs) w = (Inl e, w1)"
      using tc Inl by simp
    show ?thesis unfolding stop by (simp add: out1)
  next
    case (Inr vt)
    obtain v t where vt: "vt = (v, t)" by (cases vt)
    let ?w2 = "print_line (Time t) (print_line (Ans name pg v) w1)"
    from Cons.IH [of ?w2] obtain xs where
      xs: "map shape_of (stdout (snd (run_groups name fn pgs ?w2))) = map shape_of (stdout ?w2) @ xs"
        "prefix xs (expected_groups name pgs)"
        "fst (run_groups name fn pgs ?w2) = Inr () \<longrightarrow> xs = expected_groups name pgs"
      by blast
    have step: "run_groups name fn (pg # pgs) w = run_groups name fn pgs ?w2"
      using tc Inr vt by simp
    have out2: "map shape_of (stdout ?w2) = map shape_of (stdout w) @ [ResultOf name pg, TimingOf]"
      by (simp add: print_line_def out1)
    have eg: "expected_groups name (pg # pgs) = [ResultOf name pg, TimingOf] @ expected_groups name pgs"
      by (simp add: expected_groups_def)
    show ?thesis
      unfolding step eg
      using xs out2 by (intro exI [of _ "[ResultOf name pg, TimingOf] @ xs"]) simp
  qed
qed

lemma run_fns_shape:
  "\<exists>xs. map shape_of (stdout (snd (run_fns pgs fns w))) = map shape_of (stdout w) @ xs
      \<and> prefix xs (expected_shape fns pgs)
      \<and> (fst (run_fns pgs fns w) = Inr () \<longrightarrow> xs = expected_shape fns pgs)"
proof (induction fns arbitrary: w)
  case Nil
  show ?case by (simp add: expected_shape_def)
next
  case (Cons nf fns)
  obtain name fn where nf: "nf = (name, fn)" by (cases nf)
  let ?w1 = "print_line (Title name) w"
  obtain r w2 where rg: "run_groups name fn pgs ?w1 = (r, w2)"
    by (cases "run_groups name fn pgs ?w1")
  from run_groups_shape [of name fn pgs ?w1] rg obtain ys where
    ys: "map shape_of (stdout w2) = map shape_of (stdout ?w1) @ ys"
      "prefix ys (expected_groups name pgs)"
      "r = Inr () \<longrightarrow> ys = expected_groups name pgs"
    by auto
  have out1: "map shape_of (stdout ?w1) = map shape_of (stdout w) @ [HeaderOf name]"
    by (simp add: print_line_def)
  have es: "expected_shape (nf # fns) pgs = HeaderOf name # expected_groups name pgs @ expected_shape fns pgs"
    by (simp add: expected_shape_def nf)
  show ?case
  proof (cases r)
    case (Inl e)
    have stop: "run_fns pgs (nf # fns) w = (Inl e, w2)"
      using rg Inl nf by simp
    show ?thesis
      unfolding stop es
      using ys(1,2) out1 by (intro exI [of _ "HeaderOf name # ys"]) simp
  next
    case (Inr u)
    then have ys_eq: "ys = expected_groups name pgs" using ys(3) by simp
    have step: "run_fns pgs (nf # fns) w = run_fns pgs fns w2"
      using rg Inr nf by simp
    from Cons.IH [of w2] obtain zs where
      zs: "map shape_of (stdout (snd (run_fns pgs fns w2))) = map shape_of (stdout w2) @ zs"
        "prefix zs (expected_shape fns pgs)"
        "fst (run_fns pgs fns w2) = Inr () \<longrightarrow> zs = expected_shape fns pgs"
      by blast
    show ?thesis
      unfolding step es
      using zs ys(1) out1 by (intro exI [of _ "HeaderOf name # ys @ zs"]) (simp add: ys_eq)
  qed
qed

lemma run_fns_completes_iff:
  "fst (run_fns pgs fns w) = Inr () \<longleftrightarrow> list_all (\<lambda>(name, fn). list_all (succeeds fn) pgs) fns"
proof (induction fns arbitrary: w)
  case Nil
  show ?case by simp
next
  case (Cons nf fns)
  obtain name fn where nf: "nf = (name, fn)" by (cases nf)
  obtain r w2 where rg: "run_groups name fn pgs (print_line (Title name) w) = (r, w2)"
    by (cases "run_groups name fn pgs (print_line (Title name) w)")
  have r_iff: "r = Inr () \<longleftrightarrow> list_all (succeeds fn) pgs"
    using run_groups_completes_iff [of name fn pgs "print_line (Title name) w"] rg by simp
  show ?case
  proof (cases r)
    case (Inl e)
    then show ?thesis using rg nf r_iff by simp
  next
    case (Inr u)
    then show ?thesis using rg nf r_iff Cons.IH [of w2] by simp
  qed
qed

text \<open>
  Neither an invocation nor a loop touches the clock sequence or calls the logger,
  and the number of clock reads never decreases.
\<close>

lemma timed_call_keeps:
  "clock (snd (timed_call name fn pg w)) = clock w
   \<and> sink_calls (snd (timed_call name fn pg w)) = sink_calls w
   \<and> stdout (snd (timed_call name fn pg w)) = stdout w
   \<and> reads w \<le> reads (snd (timed_call name fn pg w))"
  by (auto simp: timed_call_eq split: outcome.splits exn.splits)

lemma run_groups_keeps:
  "clock (snd (run_groups name fn pgs w)) = clock w
   \<and> sink_calls (snd (run_groups name fn pgs w)) = sink_calls w
   \<and> reads w \<le> reads (snd (run_groups name fn pgs w))"
proof (induction pgs arbitrary: w)
  case Nil
  show ?case by simp
next
  case (Cons pg pgs)
  obtain r w1 where tc: "timed_call name fn pg w = (r, w1)"
    by (cases "timed_call name fn pg w")
  have k1: "clock w1 = clock w" "sink_calls w1 = sink_calls w" "reads w \<le> reads w1"
    using timed_call_keeps [of name fn pg w] tc by simp_all
  show ?case
  proof (cases r)
    case (Inl e)
    then show ?thesis using tc k1 by simp
  next
    case (Inr vt)
    obtain v t where vt: "vt = (v, t)" by (cases vt)
    let ?w2 = "print_line (Time t) (print_line (Ans name pg v) w1)"
    have step: "run_groups name fn (pg # pgs) w = run_groups name fn pgs ?w2"
      using tc Inr vt by simp
    have k2: "clock ?w2 = clock w" "sink_calls ?w2 = sink_calls w" "reads w \<le> reads ?w2"
      using k1 by (simp_all add: print_line_def)
    show ?thesis
      unfolding step using Cons.IH [of ?w2] k2 by simp
  qed
qed

lemma run_fns_keeps:
  "clock (snd (run_fns pgs fns w)) = clock w
   \<and> sink_calls (snd (run_fns pgs fns w)) = sink_calls w
   \<and> reads w \<le> reads (snd (run_fns pgs fns w))"
proof (induction fns arbitrary: w)
  case Nil
  show ?case by simp
next
  case (Cons nf fns)
  obtain name fn where nf: "nf = (name, fn)" by (cases nf)
  let ?w1 = "print_line (Title name) w"
  obtain r w2 where rg: "run_groups name fn pgs ?w1 = (r, w2)"
    by (cases "run_groups name fn pgs ?w1")
  have k2: "clock w2 = clock w" "sink_calls w2 = sink_calls w" "reads w \<le> reads w2"
    using run_groups_keeps [of name fn pgs ?w1] rg by (simp_all add: print_line_def)
  show ?case
  proof (cases r)
    case (Inl e)
    have stop: "run_fns pgs (nf # fns) w = (Inl e, w2)"
      using rg Inl nf by simp
    show ?thesis unfolding stop using k2 by simp
  next
    case (Inr u)
    have step: "run_fns pgs (nf # fns) w = run_fns pgs fns w2"
      using rg Inr nf by simp
    show ?thesis unfolding step using Cons.IH [of w2] k2 by simp
  qed
qed

section \<open>Output of a run\<close>

lemma emitted_shape:
  assumes "map shape_of (stdout w') = map shape_of (stdout w) @ xs"
  shows "map shape_of (emitted w w') = xs"
proof -
  have "map shape_of (emitted w w')
      = drop (length (map shape_of (stdout w))) (map shape_of (stdout w'))"
    by (simp add: emitted_def drop_map)
  then show ?thesis using assms by simp
qed

lemma emitted_append: "stdout w' = stdout w @ ys \<Longrightarrow> emitted w w' = ys"
  by (simp add: emitted_def)

lemma run_fns_no_groups:
  "run_fns [] fns w
     = (Inr (), w\<lparr>stdout := stdout w @ map (\<lambda>(name, fn). Title name) fns,
                  trace := trace w @ map (\<lambda>(name, fn). Printed (Title name)) fns\<rparr>)"
  by (induction fns arbitrary: w) (auto simp: print_line_def)

lemma completed_run_shape:
  assumes "list_all (\<lambda>(name, fn). list_all (succeeds fn) pgs) fns"
  shows "fst (run_fns pgs fns w) = Inr ()"
    and "map shape_of (emitted w (snd (run_fns pgs fns w))) = expected_shape fns pgs"
proof -
  show ok: "fst (run_fns pgs fns w) = Inr ()"
    using assms by (simp add: run_fns_completes_iff)
  from run_fns_shape [of pgs fns w] ok
  have "map shape_of (stdout (snd (run_fns pgs fns w)))
      = map shape_of (stdout w) @ expected_shape fns pgs"
    by auto
  then show "map shape_of (emitted w (snd (run_fns pgs fns w))) = expected_shape fns pgs"
    by (rule emitted_shape)
qed

lemma run_groups_all_succeed:
  assumes "list_all (succeeds fn) pgs"
  shows "fst (run_groups name fn pgs w) = Inr ()"
    and "map shape_of (stdout (snd (run_groups name fn pgs w)))
          = map shape_of (stdout w) @ expected_groups name pgs"
proof -
  show ok: "fst (run_groups name fn pgs w) = Inr ()"
    using assms by (simp add: run_groups_completes_iff)
  from run_groups_shape [of name fn pgs w] ok
  show "map shape_of (stdout (snd (run_groups name fn pgs w)))
          = map shape_of (stdout w) @ expected_groups name pgs"
    by auto
qed

lemma run_groups_stops:
  assumes "list_all (succeeds fn) ps1" and "pair_outcome fn pg = Raises e"
  shows "run_groups name fn (ps1 @ pg # ps2) w
           = (Inl e, snd (timed_call name fn pg (snd (run_groups name fn ps1 w))))"
proof -
  obtain w1 where r1: "run_groups name fn ps1 w = (Inr (), w1)"
    using run_groups_all_succeed(1) [OF assms(1), of name w]
    by (cases "run_groups name fn ps1 w") auto
  obtain w2 where r2: "timed_call name fn pg w1 = (Inl e, w2)"
    using timed_call_raises [OF assms(2), of name w1]
    by (cases "timed_call name fn pg w1") auto
  show ?thesis
    by (simp add: run_groups_append r1 r2)
qed

lemma logger_never_called:
  "sink_calls (snd (bench_compare_multiple logger pgs fns w)) = sink_calls w"
  by (simp add: bench_compare_multiple_def run_fns_keeps)

text \<open>Counting the lines of each kind in the expected output.\<close>

lemma count_by_shape:
  assumes "\<And>l. P l = Q (shape_of l)"
  shows "length (filter P ls) = length (filter Q (map shape_of ls))"
  using assms by (induction ls) auto

lemma is_header_shape: "is_header l = (case shape_of l of HeaderOf n \<Rightarrow> True | _ \<Rightarrow> False)"
  by (cases l) auto

lemma is_result_shape: "is_result l = (case shape_of l of ResultOf n p \<Rightarrow> True | _ \<Rightarrow> False)"
  by (cases l) auto

lemma is_timing_shape: "is_timing l = (case shape_of l of TimingOf \<Rightarrow> True | _ \<Rightarrow> False)"
  by (cases l) auto

lemma count_expected_groups:
  "length (filter (\<lambda>s. case s of HeaderOf n \<Rightarrow> True | _ \<Rightarrow> False) (expected_groups name pgs)) = 0"
  "length (filter (\<lambda>s. case s of ResultOf n p \<Rightarrow> True | _ \<Rightarrow> False) (expected_groups name pgs)) = length pgs"
  "length (filter (\<lambda>s. case s of TimingOf \<Rightarrow> True | _ \<Rightarrow> False) (expected_groups name pgs)) = length pgs"
  by (induction pgs) (simp_all add: expected_groups_def)

lemma expected_shape_Cons:
  "expected_shape ((name, fn) # fns) pgs
     = HeaderOf name # expected_groups name pgs @ expected_shape fns pgs"
  by (simp add: expected_shape_def)

lemma count_expected_shape:
  "length (filter (\<lambda>s. case s of HeaderOf n \<Rightarrow> True | _ \<Rightarrow> False) (expected_shape fns pgs)) = length fns"
  "length (filter (\<lambda>s. case s of ResultOf n p \<Rightarrow> True | _ \<Rightarrow> False) (expected_shape fns pgs)) = length fns * length pgs"
  "length (filter (\<lambda>s. case s of TimingOf \<Rightarrow> True | _ \<Rightarrow> False) (expected_shape fns pgs)) = length fns * length pgs"
proof (induction fns)
  case Nil
  {
    case 1 show ?case by (simp add: expected_shape_def)
  next
    case 2 show ?case by (simp add: expected_shape_def)
  next
    case 3 show ?case by (simp add: expected_shape_def)
  }
next
  case (Cons nf fns)
  obtain name fn where nf: "nf = (name, fn)" by (cases nf)
  {
    case 1 show ?case using Cons.IH(1) by (simp add: nf expected_shape_Cons count_expected_groups)
  next
    case 2 show ?case using Cons.IH(2) by (simp add: nf expected_shape_Cons count_expected_groups)
  next
    case 3 show ?case using Cons.IH(3) by (simp add: nf expected_shape_Cons count_expected_groups)
  }
qed

section \<open>The trace of a run\<close>

text \<open>Splitting a trace at a printed line.\<close>

lemma printed_of_append: "printed_of (xs @ ys) = printed_of xs @ printed_of ys"
  by (induction xs rule: printed_of.induct) simp_all

lemma printed_split:
  "printed_of tr = ls1 @ l # ls2 \<Longrightarrow>
     \<exists>pre post. tr = pre @ Printed l # post \<and> printed_of pre = ls1 \<and> printed_of post = ls2"
proof (induction tr arbitrary: ls1)
  case Nil
  then show ?case by simp
next
  case (Cons ev es)
  show ?case
  proof (cases ev)
    case (Printed l')
    show ?thesis
    proof (cases ls1)
      case Nil
      then have "l' = l" "printed_of es = ls2"
        using Cons.prems Printed by simp_all
      then show ?thesis
        using Nil Printed by (intro exI [of _ "[]"] exI [of _ es]) simp
    next
      case (Cons x xs)
      then have rest: "printed_of es = xs @ l # ls2" and x: "x = l'"
        using Cons.prems Printed by simp_all
      from Cons.IH [OF rest] obtain pre post where
        "es = pre @ Printed l # post" "printed_of pre = xs" "printed_of post = ls2"
        by blast
      then show ?thesis
        using Cons x Printed by (intro exI [of _ "ev # pre"] exI [of _ post]) simp
    qed
  next
    case (ClockRead k)
    then have "printed_of es = ls1 @ l # ls2"
      using Cons.prems by simp
    from Cons.IH [OF this] obtain pre post where
      "es = pre @ Printed l # post" "printed_of pre = ls1" "printed_of post = ls2"
      by blast
    then show ?thesis
      using ClockRead by (intro exI [of _ "ev # pre"] exI [of _ post]) simp
  next
    case (Invoked a)
    then have "printed_of es = ls1 @ l # ls2"
      using Cons.prems by simp
    from Cons.IH [OF this] obtain pre post where
      "es = pre @ Printed l # post" "printed_of pre = ls1" "printed_of post = ls2"
      by blast
    then show ?thesis
      using Invoked by (intro exI [of _ "ev # pre"] exI [of _ post]) simp
  qed
qed

lemma measured_prepend: "measured c F P pre t \<Longrightarrow> measured c F P (xs @ pre) t"
  unfolding measured_def
  by (elim exE conjE) (metis append.assoc)

lemma timed_trace_no_time:
  "\<forall>t. Printed (Time t) \<notin> set tr \<Longrightarrow> timed_trace c F P tr"
  unfolding timed_trace_def by auto

lemma timed_trace_not_first:
  "timed_trace c F P tr \<Longrightarrow> tr \<noteq> Printed (Time t) # post"
proof
  assume tt: "timed_trace c F P tr" and eq: "tr = Printed (Time t) # post"
  then have "measured c F P [] t"
    unfolding timed_trace_def by (metis append_Nil)
  then show False
    unfolding measured_def by simp
qed

lemma timed_trace_append:
  assumes "timed_trace c F P tr1" and "timed_trace c F P tr2"
  shows "timed_trace c F P (tr1 @ tr2)"
  unfolding timed_trace_def
proof (intro allI impI)
  fix pre t post
  assume eq: "tr1 @ tr2 = pre @ Printed (Time t) # post"
  then obtain us where
    "(tr1 = pre @ us \<and> us @ tr2 = Printed (Time t) # post)
     \<or> (tr1 @ us = pre \<and> tr2 = us @ Printed (Time t) # post)"
    unfolding append_eq_append_conv2 by blast
  then show "measured c F P pre t"
  proof
    assume a: "tr1 = pre @ us \<and> us @ tr2 = Printed (Time t) # post"
    show ?thesis
    proof (cases us)
      case Nil
      then have "tr2 = Printed (Time t) # post" using a by simp
      then show ?thesis using timed_trace_not_first [OF assms(2)] by blast
    next
      case (Cons u us')
      then have "tr1 = pre @ Printed (Time t) # us'" using a by simp
      then show ?thesis using assms(1) unfolding timed_trace_def by blast
    qed
  next
    assume b: "tr1 @ us = pre \<and> tr2 = us @ Printed (Time t) # post"
    then have "measured c F P us t"
      using assms(2) unfolding timed_trace_def by blast
    then show ?thesis
      using b measured_prepend [of c F P us t tr1] by simp
  qed
qed

lemma timed_trace_record:
  assumes "(name, fn) \<in> F" and "pg \<in> P" and "attempt_returns fn name pg a v"
  shows "timed_trace c F P
    [ClockRead k, Invoked a, ClockRead (Suc k), Printed (Ans name pg v), Printed (Time (c (Suc k) - c k))]"
  unfolding timed_trace_def
proof (intro allI impI)
  fix pre t post
  assume eq: "[ClockRead k, Invoked a, ClockRead (Suc k), Printed (Ans name pg v),
      Printed (Time (c (Suc k) - c k))] = pre @ Printed (Time t) # post"
  then have "pre = [ClockRead k, Invoked a, ClockRead (Suc k), Printed (Ans name pg v)]
      \<and> t = c (Suc k) - c k"
    by (auto simp: Cons_eq_append_conv)
  then show "measured c F P pre t"
    unfolding measured_def using assms by (intro exI [of _ "[]"]) auto
qed

text \<open>
  One record: the events of the attempt that returned, then its result line and its
  timing line. A failing pair adds no line. Both loops keep the trace timed, and the
  lines printed are the lines of the trace.
\<close>

lemma traced_append: "trace w' = trace w @ seg \<Longrightarrow> traced w w' = seg"
  by (simp add: traced_def)

lemma failed_call_trace:
  assumes "timed_call name fn pg w = (Inl e, w1)"
  shows "\<exists>seg. trace w1 = trace w @ seg \<and> printed_of seg = [] \<and> timed_trace c F P seg"
proof -
  have "\<exists>seg. trace w1 = trace w @ seg \<and> printed_of seg = [] \<and> (\<forall>t. Printed (Time t) \<notin> set seg)"
    using assms by (auto simp: timed_call_eq split: outcome.splits exn.splits)
  then show ?thesis
    using timed_trace_no_time by blast
qed

lemma record_trace:
  assumes tc: "timed_call name fn pg w = (Inr (v, t), w1)"
    and mem: "(name, fn) \<in> F" "pg \<in> P"
  shows "\<exists>seg. trace (print_line (Time t) (print_line (Ans name pg v) w1)) = trace w @ seg
      \<and> printed_of seg = [Ans name pg v, Time t]
      \<and> timed_trace (clock w) F P seg"
proof (cases "star_call fn pg")
  case (Returns v')
  let ?k = "reads w"
  let ?seg = "[ClockRead ?k, Invoked (Positional name pg), ClockRead (Suc ?k),
      Printed (Ans name pg v), Printed (Time (clock w (Suc ?k) - clock w ?k))]"
  have vt: "v' = v" "t = clock w (Suc ?k) - clock w ?k"
    and tr: "trace w1 = trace w @ [ClockRead ?k, Invoked (Positional name pg), ClockRead (Suc ?k)]"
    using tc Returns by (auto simp: timed_call_eq)
  have "attempt_returns fn name pg (Positional name pg) v"
    using Returns vt(1) by (simp add: attempt_returns_def)
  then have "timed_trace (clock w) F P ?seg"
    using mem by (rule timed_trace_record [rotated 2])
  then show ?thesis
    using tr vt(2) by (intro exI [of _ ?seg]) (simp add: print_line_def)
next
  case (Raises e)
  then have e: "e = TypeError"
    using tc by (cases e) (auto simp: timed_call_eq)
  then obtain v' where wc: "call fn [pg] = Returns v'"
    using tc Raises by (cases "call fn [pg]") (auto simp: timed_call_eq)
  let ?k = "Suc (reads w)"
  let ?head = "[ClockRead (reads w), Invoked (Positional name pg)]"
  let ?seg = "[ClockRead ?k, Invoked (WholeGroup name pg), ClockRead (Suc ?k),
      Printed (Ans name pg v), Printed (Time (clock w (Suc ?k) - clock w ?k))]"
  have vt: "v' = v" "t = clock w (Suc ?k) - clock w ?k"
    and tr: "trace w1 = trace w @ ?head @ [ClockRead ?k, Invoked (WholeGroup name pg), ClockRead (Suc ?k)]"
    using tc Raises e wc by (auto simp: timed_call_eq)
  have "attempt_returns fn name pg (WholeGroup name pg) v"
    using Raises e wc vt(1) by (simp add: attempt_returns_def)
  then have "timed_trace (clock w) F P ?seg"
    using mem by (rule timed_trace_record [rotated 2])
  moreover have "timed_trace (clock w) F P ?head"
    by (rule timed_trace_no_time) simp
  ultimately have "timed_trace (clock w) F P (?head @ ?seg)"
    using timed_trace_append by blast
  then show ?thesis
    using tr vt(2) by (intro exI [of _ "?head @ ?seg"]) (simp add: print_line_def)
qed

lemma run_groups_trace:
  assumes "(name, fn) \<in> F" and "set pgs \<subseteq> P"
  shows "\<exists>seg. trace (snd (run_groups name fn pgs w)) = trace w @ seg
      \<and> stdout (snd (run_groups name fn pgs w)) = stdout w @ printed_of seg
      \<and> timed_trace (clock w) F P seg"
  using assms(2)
proof (induction pgs arbitrary: w)
  case Nil
  show ?case by (simp add: timed_trace_no_time)
next
  case (Cons pg pgs)
  then have pg: "pg \<in> P" and rest: "set pgs \<subseteq> P" by simp_all
  obtain r w1 where tc: "timed_call name fn pg w = (r, w1)"
    by (cases "timed_call name fn pg w")
  have k1: "clock w1 = clock w" "stdout w1 = stdout w"
    using timed_call_keeps [of name fn pg w] tc by simp_all
  show ?case
  proof (cases r)
    case (Inl e)
    have stop: "run_groups name fn (pg # pgs) w = (Inl e, w1)"
      using tc Inl by simp
    from failed_call_trace [of name fn pg w e w1 "clock w" F P] tc Inl
    obtain seg where "trace w1 = trace w @ seg" "printed_of seg = []" "timed_trace (clock w) F P seg"
      by blast
    then show ?thesis
      unfolding stop using k1(2) by (intro exI [of _ seg]) simp
  next
    case (Inr vt)
    obtain v t where vt: "vt = (v, t)" by (cases vt)
    let ?w2 = "print_line (Time t) (print_line (Ans name pg v) w1)"
    let ?w3 = "snd (run_groups name fn pgs ?w2)"
    have step: "run_groups name fn (pg # pgs) w = run_groups name fn pgs ?w2"
      using tc Inr vt by simp
    have k2: "clock ?w2 = clock w" "stdout ?w2 = stdout w @ [Ans name pg v, Time t]"
      using k1 by (simp_all add: print_line_def)
    from record_trace [of name fn pg w v t w1 F P] tc Inr vt assms(1) pg
    obtain s1 where s1: "trace ?w2 = trace w @ s1" "printed_of s1 = [Ans name pg v, Time t]"
        "timed_trace (clock w) F P s1"
      by blast
    from Cons.IH [OF rest, of ?w2] obtain s2 where
      s2: "trace ?w3 = trace ?w2 @ s2" "stdout ?w3 = stdout ?w2 @ printed_of s2"
        "timed_trace (clock ?w2) F P s2"
      by blast
    have s2': "timed_trace (clock w) F P s2"
      using s2(3) k2(1) by simp
    have "timed_trace (clock w) F P (s1 @ s2)"
      using s1(3) s2' by (rule timed_trace_append)
    then show ?thesis
      unfolding step using s1(1,2) s2(1,2) k2(2)
      by (intro exI [of _ "s1 @ s2"]) (simp add: printed_of_append)
  qed
qed

lemma run_fns_trace:
  assumes "set pgs \<subseteq> P"
  shows "set fns \<subseteq> F \<Longrightarrow>
    \<exists>seg. trace (snd (run_fns pgs fns w)) = trace w @ seg
      \<and> stdout (snd (run_fns pgs fns w)) = stdout w @ printed_of seg
      \<and> timed_trace (clock w) F P seg"
proof (induction fns arbitrary: w)
  case Nil
  show ?case by (simp add: timed_trace_no_time)
next
  case (Cons nf fns)
  obtain name fn where nf: "nf = (name, fn)" by (cases nf)
  then have mem: "(name, fn) \<in> F" and rest: "set fns \<subseteq> F"
    using Cons.prems by simp_all
  let ?w1 = "print_line (Title name) w"
  obtain r w2 where rg: "run_groups name fn pgs ?w1 = (r, w2)"
    by (cases "run_groups name fn pgs ?w1")
  have k1: "clock ?w1 = clock w" "stdout ?w1 = stdout w @ [Title name]"
      "trace ?w1 = trace w @ [Printed (Title name)]"
    by (simp_all add: print_line_def)
  have k2: "clock w2 = clock w"
    using run_groups_keeps [of name fn pgs ?w1] rg by (simp add: print_line_def)
  from run_groups_trace [OF mem assms, of ?w1] rg obtain s1 where
    s1: "trace w2 = trace ?w1 @ s1" "stdout w2 = stdout ?w1 @ printed_of s1"
      "timed_trace (clock w) F P s1"
    using k1(1) by auto
  have head: "timed_trace (clock w) F P [Printed (Title name)]"
    by (rule timed_trace_no_time) simp
  have t1: "timed_trace (clock w) F P ([Printed (Title name)] @ s1)"
    using head s1(3) by (rule timed_trace_append)
  show ?case
  proof (cases r)
    case (Inl e)
    have stop: "run_fns pgs (nf # fns) w = (Inl e, w2)"
      using rg Inl nf by simp
    show ?thesis
      unfolding stop using s1(1,2) k1(2,3) t1
      by (intro exI [of _ "[Printed (Title name)] @ s1"]) simp
  next
    case (Inr u)
    let ?w3 = "snd (run_fns pgs fns w2)"
    have step: "run_fns pgs (nf # fns) w = run_fns pgs fns w2"
      using rg Inr nf by simp
    from Cons.IH [OF rest, of w2] obtain s2 where
      s2: "trace ?w3 = trace w2 @ s2" "stdout ?w3 = stdout w2 @ printed_of s2"
        "timed_trace (clock w2) F P s2"
      by blast
    have s2': "timed_trace (clock w) F P s2"
      using s2(3) k2 by simp
    have "timed_trace (clock w) F P (([Printed (Title name)] @ s1) @ s2)"
      using t1 s2' by (rule timed_trace_append)
    then show ?thesis
      unfolding step using s1(1,2) s2(1,2) k1(2,3)
      by (intro exI [of _ "([Printed (Title name)] @ s1) @ s2"]) (simp add: printed_of_append)
  qed
qed

lemma failing_pair_prints_nothing:
  assumes "pair_outcome fn pg = Raises e"
  shows "run_groups name fn (pg # rest) w = (Inl e, snd (timed_call name fn pg w))
    \<and> stdout (snd (timed_call name fn pg w)) = stdout w"
proof -
  have "fst (timed_call name fn pg w) = Inl e"
    using assms by (rule timed_call_raises)
  then have "run_groups name fn (pg # rest) w = (Inl e, snd (timed_call name fn pg w))"
    by (cases "timed_call name fn pg w") simp
  then show ?thesis
    using timed_call_keeps [of name fn pg w] by simp
qed

section \<open>The scenario of \<open>add\<close> and \<open>sum_seq\<close>\<close>

lemma scenario_calls:
  "star_call add_fn (PTuple [PInt 1, PInt 2]) = Returns (PInt 3)"
  "star_call add_fn (PTuple [PInt 3, PInt 4]) = Returns (PInt 7)"
  "star_call sum_seq_fn (PTuple [PInt 1, PInt 2]) = Raises TypeError"
  "star_call sum_seq_fn (PTuple [PInt 3, PInt 4]) = Raises TypeError"
  "call sum_seq_fn [PTuple [PInt 1, PInt 2]] = Returns (PInt 3)"
  "call sum_seq_fn [PTuple [PInt 3, PInt 4]] = Returns (PInt 7)"
  by (simp_all add: star_call_def call_def add_fn_def sum_seq_fn_def py_sum_def)

lemma scenario_run:
  "bench_compare_multiple logger two_groups [(''add'', add_fn), (''sum_seq'', sum_seq_fn)] (init_world c)
     = (Inr (),
        \<lparr>clock = c, reads = 10,
         stdout = [Title ''add'',
                   Ans ''add'' (PTuple [PInt 1, PInt 2]) (PInt 3), Time (c 1 - c 0),
                   Ans ''add'' (PTuple [PInt 3, PInt 4]) (PInt 7), Time (c 3 - c 2),
                   Title ''sum_seq'',
                   Ans ''sum_seq'' (PTuple [PInt 1, PInt 2]) (PInt 3), Time (c 6 - c 5),
                   Ans ''sum_seq'' (PTuple [PInt 3, PInt 4]) (PInt 7), Time (c 9 - c 8)],
         sink_calls = [],
         attempts = [Positional ''add'' (PTuple [PInt 1, PInt 2]),
                     Positional ''add'' (PTuple [PInt 3, PInt 4]),
                     Positional ''sum_seq'' (PTuple [PInt 1, PInt 2]),
                     WholeGroup ''sum_seq'' (PTuple [PInt 1, PInt 2]),
                     Positional ''sum_seq'' (PTuple [PInt 3, PInt 4]),
                     WholeGroup ''sum_seq'' (PTuple [PInt 3, PInt 4])],
         trace = [Printed (Title ''add''),
                  ClockRead 0, Invoked (Positional ''add'' (PTuple [PInt 1, PInt 2])), ClockRead 1,
                  Printed (Ans ''add'' (PTuple [PInt 1, PInt 2]) (PInt 3)),
                  Printed (Time (c 1 - c 0)),
                  ClockRead 2, Invoked (Positional ''add'' (PTuple [PInt 3, PInt 4])), ClockRead 3,
                  Printed (Ans ''add'' (PTuple [PInt 3, PInt 4]) (PInt 7)),
                  Printed (Time (c 3 - c 2)),
                  Printed (Title ''sum_seq''),
                  ClockRead 4, Invoked (Positional ''sum_seq'' (PTuple [PInt 1, PInt 2])),
                  ClockRead 5, Invoked (WholeGroup ''sum_seq'' (PTuple [PInt 1, PInt 2])),
                  ClockRead 6,
                  Printed (Ans ''sum_seq'' (PTuple [PInt 1, PInt 2]) (PInt 3)),
                  Printed (Time (c 6 - c 5)),
                  ClockRead 7, Invoked (Positional ''sum_seq'' (PTuple [PInt 3, PInt 4])),
                  ClockRead 8, Invoked (WholeGroup ''sum_seq'' (PTuple [PInt 3, PInt 4])),
                  ClockRead 9,
                  Printed (Ans ''sum_seq'' (PTuple [PInt 3, PInt 4]) (PInt 7)),
                  Printed (Time (c 9 - c 8))]\<rparr>)"
  by (simp add: bench_compare_multiple_def two_groups_def timed_call_eq scenario_calls
      init_world_def print_line_def numeral_2_eq_2 numeral_3_eq_3 eval_nat_numeral)

lemma scenario_text:
  "py_str (PTuple [PInt 1, PInt 2]) = ''(1, 2)''"
  "py_str (PTuple [PInt 3, PInt 4]) = ''(3, 4)''"
  "py_str (PInt 3) = ''3''"
  "py_str (PInt 7) = ''7''"
  by (simp_all add: str_int_def digit_char_def)

lemma scenario_succeeds:
  "succeeds add_fn (PTuple [PInt 1, PInt 2])"
  "succeeds add_fn (PTuple [PInt 3, PInt 4])"
  "succeeds sum_seq_fn (PTuple [PInt 1, PInt 2])"
  "succeeds sum_seq_fn (PTuple [PInt 3, PInt 4])"
  by (simp_all add: succeeds_def pair_outcome_def scenario_calls)

lemma boom_outcome: "pair_outcome (raising_fn e) pg = Raises e"
  by (cases pg) (simp_all add: pair_outcome_def star_call_def call_def raising_fn_def split: exn.splits)

section \<open>The claims\<close>

text \<open>
  C1: the docstring of \<open>bench_compare_multiple\<close> makes \<open>logger\<close> the construct
  that results are logged and printed with, and the function never calls it. For the
  callable \<open>add\<close> and the group \<open>(1, 2)\<close>, with any logger and any clock, the
  header, the result line and the timing line all go to standard output through
  \<open>print\<close>, and the logger receives no call at all. By \<open>logger_never_called\<close> no
  run ever calls it.
\<close>

theorem logger_receives_no_line:
  "bench_compare_multiple logger [PTuple [PInt 1, PInt 2]] [(''add'', add_fn)] (init_world c)
     = (Inr (),
        \<lparr>clock = c, reads = 2,
         stdout = [Title ''add'', Ans ''add'' (PTuple [PInt 1, PInt 2]) (PInt 3), Time (c 1 - c 0)],
         sink_calls = [],
         attempts = [Positional ''add'' (PTuple [PInt 1, PInt 2])],
         trace = [Printed (Title ''add''),
                  ClockRead 0, Invoked (Positional ''add'' (PTuple [PInt 1, PInt 2])), ClockRead 1,
                  Printed (Ans ''add'' (PTuple [PInt 1, PInt 2]) (PInt 3)),
                  Printed (Time (c 1 - c 0))]\<rparr>)"
  by (simp add: bench_compare_multiple_def timed_call_eq scenario_calls init_world_def
      print_line_def)

text \<open>
  C2, as stated, fails: \<open>boom\<close> raises \<open>ZeroDivisionError\<close> on every group and
  \<open>add\<close> returns on both groups \<open>(1, 2)\<close> and \<open>(3, 4)\<close>. The run ends with the
  exception of the first invocation: only the header of \<open>boom\<close> is printed, no
  record of the failure is made, and \<open>add\<close> is never attempted.
\<close>

theorem failure_isolation_counterexample:
  "list_all (succeeds add_fn) two_groups
   \<and> bench_compare_multiple PlainCallable two_groups
        [(''boom'', raising_fn ZeroDivisionError), (''add'', add_fn)] (init_world frozen_clock)
     = (Inl ZeroDivisionError,
        \<lparr>clock = frozen_clock, reads = 1, stdout = [Title ''boom''], sink_calls = [],
         attempts = [Positional ''boom'' (PTuple [PInt 1, PInt 2])],
         trace = [Printed (Title ''boom''), ClockRead 0,
                  Invoked (Positional ''boom'' (PTuple [PInt 1, PInt 2]))]\<rparr>)"
  by (simp add: bench_compare_multiple_def two_groups_def scenario_succeeds timed_call_eq
      star_call_def call_def raising_fn_def init_world_def print_line_def)

text \<open>
  C2, amended: when every invocation before the pair of callable \<open>a\<close> and group
  \<open>pg\<close> returns, and that pair raises \<open>e\<close> (from the positional attempt with an
  exception other than \<open>TypeError\<close>, or from the fallback), the run ends there with
  \<open>e\<close>. The world it leaves is the world right after the failing attempt, so no
  later group and no later callable is attempted; the output is the complete blocks
  of the earlier callables, the header of \<open>a\<close> and the records of its earlier
  groups, with no line for the failing pair.
\<close>

theorem run_stops_at_first_failure:
  assumes "list_all (\<lambda>(name, fn). list_all (succeeds fn) (ps1 @ pg # ps2)) fs1"
    and "list_all (succeeds fa) ps1"
    and "pair_outcome fa pg = Raises e"
  shows "bench_compare_multiple logger (ps1 @ pg # ps2) (fs1 @ (a, fa) # fs2) w
      = (Inl e,
         snd (timed_call a fa pg
           (snd (run_groups a fa ps1
             (print_line (Title a) (snd (run_fns (ps1 @ pg # ps2) fs1 w)))))))
    \<and> map shape_of (emitted w (snd (bench_compare_multiple logger (ps1 @ pg # ps2)
          (fs1 @ (a, fa) # fs2) w)))
      = expected_shape fs1 (ps1 @ pg # ps2) @ HeaderOf a # expected_groups a ps1"
proof -
  let ?pgs = "ps1 @ pg # ps2"
  have ok1: "fst (run_fns ?pgs fs1 w) = Inr ()"
    using completed_run_shape(1) [OF assms(1)] .
  then obtain w1 where r1: "run_fns ?pgs fs1 w = (Inr (), w1)"
    by (cases "run_fns ?pgs fs1 w") auto
  let ?w2 = "print_line (Title a) w1"
  let ?w3 = "snd (run_groups a fa ps1 ?w2)"
  let ?w4 = "snd (timed_call a fa pg ?w3)"
  have w1_eq: "snd (run_fns ?pgs fs1 w) = w1"
    by (simp add: r1)
  have s1: "map shape_of (stdout w1) = map shape_of (stdout w) @ expected_shape fs1 ?pgs"
    using run_fns_shape [of ?pgs fs1 w] ok1 by (auto simp: w1_eq)
  have r2: "run_groups a fa ?pgs ?w2 = (Inl e, ?w4)"
    using run_groups_stops [OF assms(2,3)] .
  have run: "run_fns ?pgs (fs1 @ (a, fa) # fs2) w = (Inl e, ?w4)"
    by (subst run_fns_append) (simp add: r1 r2)
  have s2: "map shape_of (stdout ?w2) = map shape_of (stdout w) @ expected_shape fs1 ?pgs @ [HeaderOf a]"
    using s1 by (simp add: print_line_def)
  have s3: "map shape_of (stdout ?w3) = map shape_of (stdout ?w2) @ expected_groups a ps1"
    using run_groups_all_succeed(2) [OF assms(2)] .
  have s4: "stdout ?w4 = stdout ?w3"
    using timed_call_keeps [of a fa pg ?w3] by simp
  have "map shape_of (stdout ?w4)
      = map shape_of (stdout w) @ (expected_shape fs1 ?pgs @ HeaderOf a # expected_groups a ps1)"
    by (simp add: s4 s3 s2)
  then have "map shape_of (emitted w ?w4)
      = expected_shape fs1 ?pgs @ HeaderOf a # expected_groups a ps1"
    by (rule emitted_shape)
  then show ?thesis
    by (simp add: bench_compare_multiple_def run w1_eq)
qed

text \<open>
  C2, amended, at \<open>add\<close>, \<open>boom\<close>, \<open>sum_seq\<close> and the groups \<open>(1, 2)\<close>,
  \<open>(3, 4)\<close>: the block of \<open>add\<close> is complete, then comes the header of \<open>boom\<close>,
  and the run ends with \<open>ValueError\<close>.
\<close>

theorem run_stops_at_first_failure_witness:
  "list_all (\<lambda>(name, fn). list_all (succeeds fn) ([] @ PTuple [PInt 1, PInt 2] # [PTuple [PInt 3, PInt 4]]))
      [(''add'', add_fn)]
   \<and> list_all (succeeds (raising_fn ValueError)) []
   \<and> pair_outcome (raising_fn ValueError) (PTuple [PInt 1, PInt 2]) = Raises ValueError
   \<and> fst (bench_compare_multiple PlainCallable
        ([] @ PTuple [PInt 1, PInt 2] # [PTuple [PInt 3, PInt 4]])
        ([(''add'', add_fn)] @ (''boom'', raising_fn ValueError) # [(''sum_seq'', sum_seq_fn)])
        (init_world frozen_clock)) = Inl ValueError
   \<and> map shape_of (emitted (init_world frozen_clock)
        (snd (bench_compare_multiple PlainCallable
          ([] @ PTuple [PInt 1, PInt 2] # [PTuple [PInt 3, PInt 4]])
          ([(''add'', add_fn)] @ (''boom'', raising_fn ValueError) # [(''sum_seq'', sum_seq_fn)])
          (init_world frozen_clock))))
     = [HeaderOf ''add'', ResultOf ''add'' (PTuple [PInt 1, PInt 2]), TimingOf,
        ResultOf ''add'' (PTuple [PInt 3, PInt 4]), TimingOf, HeaderOf ''boom'']"
proof -
  have h1: "list_all (\<lambda>(name, fn). list_all (succeeds fn)
      ([] @ PTuple [PInt 1, PInt 2] # [PTuple [PInt 3, PInt 4]])) [(''add'', add_fn)]"
    by (simp add: scenario_succeeds)
  have h2: "list_all (succeeds (raising_fn ValueError)) []"
    by simp
  have h3: "pair_outcome (raising_fn ValueError) (PTuple [PInt 1, PInt 2]) = Raises ValueError"
    by (rule boom_outcome)
  note inst = run_stops_at_first_failure [OF h1 h2 h3, of PlainCallable "''boom''"
      "[(''sum_seq'', sum_seq_fn)]" "init_world frozen_clock"]
  have c1: "fst (bench_compare_multiple PlainCallable
        ([] @ PTuple [PInt 1, PInt 2] # [PTuple [PInt 3, PInt 4]])
        ([(''add'', add_fn)] @ (''boom'', raising_fn ValueError) # [(''sum_seq'', sum_seq_fn)])
        (init_world frozen_clock)) = Inl ValueError"
    by (simp only: inst [THEN conjunct1] fst_conv)
  have c2: "map shape_of (emitted (init_world frozen_clock)
        (snd (bench_compare_multiple PlainCallable
          ([] @ PTuple [PInt 1, PInt 2] # [PTuple [PInt 3, PInt 4]])
          ([(''add'', add_fn)] @ (''boom'', raising_fn ValueError) # [(''sum_seq'', sum_seq_fn)])
          (init_world frozen_clock))))
     = [HeaderOf ''add'', ResultOf ''add'' (PTuple [PInt 1, PInt 2]), TimingOf,
        ResultOf ''add'' (PTuple [PInt 3, PInt 4]), TimingOf, HeaderOf ''boom'']"
    by (simp only: inst [THEN conjunct2]) (simp add: expected_shape_def expected_groups_def)
  show ?thesis
    using h1 h2 h3 c1 c2 by blast
qed

text \<open>
  C3, as stated, fails: with an empty callable mapping and the groups \<open>(1, 2)\<close>,
  \<open>(3, 4)\<close> the function raises nothing. It returns normally and leaves the world
  as it was.
\<close>

theorem empty_mapping_counterexample:
  "bench_compare_multiple PlainCallable two_groups [] (init_world frozen_clock)
     = (Inr (), init_world frozen_clock)"
  by (simp add: bench_compare_multiple_def)

text \<open>
  C3, amended: for every logger, every sequence of parameter groups and every
  world, a call with an empty callable mapping returns normally; it prints nothing,
  reads no clock and attempts no invocation, since the world it returns is the one it
  was given.
\<close>

theorem empty_mapping_returns_silently:
  "bench_compare_multiple logger pgs [] w = (Inr (), w)"
  by (simp add: bench_compare_multiple_def)

text \<open>
  C4, as stated, fails: for \<open>sum_seq\<close> and the group \<open>(5,)\<close> the positional call
  \<open>sum_seq(5)\<close> binds, and \<open>sum(5)\<close> raises \<open>TypeError\<close> from inside the
  callable. The failure is retried all the same: the fallback \<open>sum_seq((5,))\<close> is
  attempted, returns \<open>5\<close>, and the record printed is a successful one.
\<close>

theorem body_type_error_retried_counterexample:
  "accepts sum_seq_fn (length [PInt 5])
   \<and> body sum_seq_fn [PInt 5] = Raises TypeError
   \<and> bench_compare_multiple PlainCallable [PTuple [PInt 5]] [(''sum_seq'', sum_seq_fn)]
        (init_world frozen_clock)
     = (Inr (),
        \<lparr>clock = frozen_clock, reads = 3,
         stdout = [Title ''sum_seq'', Ans ''sum_seq'' (PTuple [PInt 5]) (PInt 5), Time 0],
         sink_calls = [],
         attempts = [Positional ''sum_seq'' (PTuple [PInt 5]),
                     WholeGroup ''sum_seq'' (PTuple [PInt 5])],
         trace = [Printed (Title ''sum_seq''),
                  ClockRead 0, Invoked (Positional ''sum_seq'' (PTuple [PInt 5])),
                  ClockRead 1, Invoked (WholeGroup ''sum_seq'' (PTuple [PInt 5])),
                  ClockRead 2,
                  Printed (Ans ''sum_seq'' (PTuple [PInt 5]) (PInt 5)),
                  Printed (Time 0)]\<rparr>)"
  by (simp add: bench_compare_multiple_def timed_call_eq star_call_def call_def sum_seq_fn_def
      py_sum_def init_world_def print_line_def frozen_clock_def)

text \<open>
  C4, amended: the whole-group fallback is attempted exactly when the positional
  attempt raises \<open>TypeError\<close>, which every binding failure does. An exception of
  any other class is not retried and not recorded: it leaves the function, and for
  the first pair of a run the output is the header alone.
\<close>

theorem fallback_exactly_on_type_error:
  "attempts (snd (timed_call name fn pg w))
     = attempts w @ (if star_call fn pg = Raises TypeError
                     then [Positional name pg, WholeGroup name pg]
                     else [Positional name pg])
   \<and> (\<forall>args. unpack pg = Some args \<and> \<not> accepts fn (length args)
         \<longrightarrow> star_call fn pg = Raises TypeError)
   \<and> (\<forall>e. star_call fn pg = Raises e \<and> e \<noteq> TypeError
         \<longrightarrow> bench_compare_multiple logger (pg # pgs) ((name, fn) # fns) w
             = (Inl e, w\<lparr>reads := Suc (reads w),
                         stdout := stdout w @ [Title name],
                         attempts := attempts w @ [Positional name pg],
                         trace := trace w @ [Printed (Title name), ClockRead (reads w),
                                             Invoked (Positional name pg)]\<rparr>))"
proof (intro conjI allI impI)
  show "attempts (snd (timed_call name fn pg w))
     = attempts w @ (if star_call fn pg = Raises TypeError
                     then [Positional name pg, WholeGroup name pg]
                     else [Positional name pg])"
    by (auto simp: timed_call_eq split: outcome.splits exn.splits)
next
  fix args
  assume "unpack pg = Some args \<and> \<not> accepts fn (length args)"
  then show "star_call fn pg = Raises TypeError"
    by (simp add: star_call_def call_def)
next
  fix e
  assume "star_call fn pg = Raises e \<and> e \<noteq> TypeError"
  then show "bench_compare_multiple logger (pg # pgs) ((name, fn) # fns) w
             = (Inl e, w\<lparr>reads := Suc (reads w),
                         stdout := stdout w @ [Title name],
                         attempts := attempts w @ [Positional name pg],
                         trace := trace w @ [Printed (Title name), ClockRead (reads w),
                                             Invoked (Positional name pg)]\<rparr>)"
    by (cases e) (simp_all add: bench_compare_multiple_def timed_call_eq print_line_def)
qed

text \<open>
  C4, amended, at \<open>sum_seq\<close> with the group \<open>(1, 2)\<close>, which does not bind and is
  retried, and at \<open>boom\<close> raising \<open>RuntimeError\<close>, which ends the run.
\<close>

theorem fallback_exactly_on_type_error_witness:
  "unpack (PTuple [PInt 1, PInt 2]) = Some [PInt 1, PInt 2]
   \<and> \<not> accepts sum_seq_fn (length [PInt 1, PInt 2])
   \<and> star_call sum_seq_fn (PTuple [PInt 1, PInt 2]) = Raises TypeError
   \<and> attempts (snd (timed_call ''sum_seq'' sum_seq_fn (PTuple [PInt 1, PInt 2])
        (init_world frozen_clock)))
     = [Positional ''sum_seq'' (PTuple [PInt 1, PInt 2]),
        WholeGroup ''sum_seq'' (PTuple [PInt 1, PInt 2])]
   \<and> star_call (raising_fn RuntimeError) (PTuple [PInt 1, PInt 2]) = Raises RuntimeError
   \<and> RuntimeError \<noteq> TypeError
   \<and> bench_compare_multiple PlainCallable [PTuple [PInt 1, PInt 2], PTuple [PInt 3, PInt 4]]
        [(''boom'', raising_fn RuntimeError), (''add'', add_fn)] (init_world frozen_clock)
     = (Inl RuntimeError,
        \<lparr>clock = frozen_clock, reads = 1, stdout = [Title ''boom''], sink_calls = [],
         attempts = [Positional ''boom'' (PTuple [PInt 1, PInt 2])],
         trace = [Printed (Title ''boom''), ClockRead 0,
                  Invoked (Positional ''boom'' (PTuple [PInt 1, PInt 2]))]\<rparr>)"
proof -
  note bind = fallback_exactly_on_type_error [of "''sum_seq''" sum_seq_fn
      "PTuple [PInt 1, PInt 2]" "init_world frozen_clock" PlainCallable "[]" "[]"]
  note other = fallback_exactly_on_type_error [of "''boom''" "raising_fn RuntimeError"
      "PTuple [PInt 1, PInt 2]" "init_world frozen_clock" PlainCallable
      "[PTuple [PInt 3, PInt 4]]" "[(''add'', add_fn)]"]
  have h1: "unpack (PTuple [PInt 1, PInt 2]) = Some [PInt 1, PInt 2]
      \<and> \<not> accepts sum_seq_fn (length [PInt 1, PInt 2])"
    by (simp add: sum_seq_fn_def)
  have c1: "star_call sum_seq_fn (PTuple [PInt 1, PInt 2]) = Raises TypeError"
    using bind [THEN conjunct2, THEN conjunct1] h1 by blast
  have c2: "attempts (snd (timed_call ''sum_seq'' sum_seq_fn (PTuple [PInt 1, PInt 2])
        (init_world frozen_clock)))
     = [Positional ''sum_seq'' (PTuple [PInt 1, PInt 2]),
        WholeGroup ''sum_seq'' (PTuple [PInt 1, PInt 2])]"
    using bind [THEN conjunct1] by (simp add: c1 init_world_def)
  have h2: "star_call (raising_fn RuntimeError) (PTuple [PInt 1, PInt 2]) = Raises RuntimeError
      \<and> RuntimeError \<noteq> TypeError"
    by (simp add: star_call_def call_def raising_fn_def)
  have c3: "bench_compare_multiple PlainCallable [PTuple [PInt 1, PInt 2], PTuple [PInt 3, PInt 4]]
        [(''boom'', raising_fn RuntimeError), (''add'', add_fn)] (init_world frozen_clock)
     = (Inl RuntimeError,
        \<lparr>clock = frozen_clock, reads = 1, stdout = [Title ''boom''], sink_calls = [],
         attempts = [Positional ''boom'' (PTuple [PInt 1, PInt 2])],
         trace = [Printed (Title ''boom''), ClockRead 0,
                  Invoked (Positional ''boom'' (PTuple [PInt 1, PInt 2]))]\<rparr>)"
    using other [THEN conjunct2, THEN conjunct2] h2 by (simp add: init_world_def)
  show ?thesis
    using h1 c1 c2 h2 c3 by blast
qed

text \<open>
  C5: for a callable whose signature binds exactly one argument, and a tuple or
  list \<open>pg\<close> of more than one item on which the callable returns \<open>v\<close>, the
  positional attempt fails to bind, the fallback passes the whole group, and the
  record printed is the successful one with the result \<open>v\<close>, timed around the
  fallback call alone.
\<close>

theorem single_sequence_callable_falls_back:
  assumes "\<forall>n. accepts fn n = (n = 1)"
    and "unpack pg = Some xs"
    and "1 < length xs"
    and "body fn [pg] = Returns v"
  shows "star_call fn pg = Raises TypeError
    \<and> call fn [pg] = Returns v
    \<and> bench_compare_multiple logger [pg] [(name, fn)] w
      = (Inr (),
         w\<lparr>reads := reads w + 3,
           stdout := stdout w @ [Title name, Ans name pg v,
                                 Time (clock w (reads w + 2) - clock w (Suc (reads w)))],
           attempts := attempts w @ [Positional name pg, WholeGroup name pg],
           trace := trace w @ [Printed (Title name),
                               ClockRead (reads w), Invoked (Positional name pg),
                               ClockRead (Suc (reads w)), Invoked (WholeGroup name pg),
                               ClockRead (reads w + 2),
                               Printed (Ans name pg v),
                               Printed (Time (clock w (reads w + 2) - clock w (Suc (reads w))))]\<rparr>)"
proof -
  have sc: "star_call fn pg = Raises TypeError"
    using assms(1,2,3) by (simp add: star_call_def call_def)
  have wc: "call fn [pg] = Returns v"
    using assms(1,4) by (simp add: call_def)
  show ?thesis
    by (simp add: sc wc bench_compare_multiple_def timed_call_eq print_line_def)
qed

text \<open>
  C5 at \<open>sum_seq\<close> and the group \<open>(1, 2)\<close>, with a clock that advances by a second
  from each read to the next: the result is \<open>3\<close> and the elapsed time one second.
\<close>

theorem single_sequence_callable_falls_back_witness:
  "(\<forall>n. accepts sum_seq_fn n = (n = 1))
   \<and> unpack (PTuple [PInt 1, PInt 2]) = Some [PInt 1, PInt 2]
   \<and> 1 < length [PInt 1, PInt 2]
   \<and> body sum_seq_fn [PTuple [PInt 1, PInt 2]] = Returns (PInt 3)
   \<and> star_call sum_seq_fn (PTuple [PInt 1, PInt 2]) = Raises TypeError
   \<and> bench_compare_multiple PlainCallable [PTuple [PInt 1, PInt 2]] [(''sum_seq'', sum_seq_fn)]
        (init_world ticking_clock)
     = (Inr (),
        \<lparr>clock = ticking_clock, reads = 3,
         stdout = [Title ''sum_seq'', Ans ''sum_seq'' (PTuple [PInt 1, PInt 2]) (PInt 3), Time 1],
         sink_calls = [],
         attempts = [Positional ''sum_seq'' (PTuple [PInt 1, PInt 2]),
                     WholeGroup ''sum_seq'' (PTuple [PInt 1, PInt 2])],
         trace = [Printed (Title ''sum_seq''),
                  ClockRead 0, Invoked (Positional ''sum_seq'' (PTuple [PInt 1, PInt 2])),
                  ClockRead 1, Invoked (WholeGroup ''sum_seq'' (PTuple [PInt 1, PInt 2])),
                  ClockRead 2,
                  Printed (Ans ''sum_seq'' (PTuple [PInt 1, PInt 2]) (PInt 3)),
                  Printed (Time 1)]\<rparr>)"
proof -
  have h1: "\<forall>n. accepts sum_seq_fn n = (n = 1)"
    by (simp add: sum_seq_fn_def)
  have h2: "unpack (PTuple [PInt 1, PInt 2]) = Some [PInt 1, PInt 2]"
    by simp
  have h3: "1 < length [PInt 1, PInt 2]"
    by simp
  have h4: "body sum_seq_fn [PTuple [PInt 1, PInt 2]] = Returns (PInt 3)"
    by (simp add: sum_seq_fn_def py_sum_def)
  show ?thesis
    using h1 h2 h3 h4
      single_sequence_callable_falls_back [OF h1 h2 h3 h4, of PlainCallable "''sum_seq''"
        "init_world ticking_clock"]
    by (simp add: init_world_def ticking_clock_def)
qed

text \<open>
  C6: with the callables \<open>add\<close> and \<open>sum_seq\<close> and the groups \<open>(1, 2)\<close>, \<open>(3, 4)\<close>,
  whatever the clock shows, the lines printed are the header of \<open>add\<close>, its two
  result lines \<open>add((1, 2)) = 3\<close> and \<open>add((3, 4)) = 7\<close>, each followed by a timing
  line, and then the same for \<open>sum_seq\<close> with the results \<open>3\<close> and \<open>7\<close>. Result and
  timing lines start with a tab, as the templates of the source have it.
\<close>

theorem add_sum_seq_scenario:
  "map (format_line sf)
     (stdout (snd (bench_compare_multiple logger two_groups
        [(''add'', add_fn), (''sum_seq'', sum_seq_fn)] (init_world c))))
   = [''Testing add:'',
      CHR 0x09 # ''add((1, 2)) = 3'', CHR 0x09 # ''Time = '' @ sf (c 1 - c 0),
      CHR 0x09 # ''add((3, 4)) = 7'', CHR 0x09 # ''Time = '' @ sf (c 3 - c 2),
      ''Testing sum_seq:'',
      CHR 0x09 # ''sum_seq((1, 2)) = 3'', CHR 0x09 # ''Time = '' @ sf (c 6 - c 5),
      CHR 0x09 # ''sum_seq((3, 4)) = 7'', CHR 0x09 # ''Time = '' @ sf (c 9 - c 8)]"
  by (simp add: scenario_run scenario_text del: py_str.simps)

text \<open>
  C7, as stated, fails: with the one callable \<open>boom\<close>, which raises
  \<open>ValueError\<close>, and the one group \<open>(1, 2)\<close>, the run prints the header and ends
  with the exception. The pair has no result line and no timing line.
\<close>

theorem one_record_per_pair_counterexample:
  "bench_compare_multiple PlainCallable [PTuple [PInt 1, PInt 2]]
      [(''boom'', raising_fn ValueError)] (init_world frozen_clock)
   = (Inl ValueError,
      \<lparr>clock = frozen_clock, reads = 1, stdout = [Title ''boom''], sink_calls = [],
       attempts = [Positional ''boom'' (PTuple [PInt 1, PInt 2])],
       trace = [Printed (Title ''boom''), ClockRead 0,
                Invoked (Positional ''boom'' (PTuple [PInt 1, PInt 2]))]\<rparr>)"
  by (simp add: bench_compare_multiple_def timed_call_eq star_call_def call_def raising_fn_def
      init_world_def print_line_def)

text \<open>
  C7, amended: when the invocation of every pair returns, directly or through the
  fallback, the run returns normally and prints exactly the expected output: one
  header per callable, and for each of the \<open>N * M\<close> pairs one result line followed
  by one timing line.
\<close>

theorem completed_run_line_counts:
  assumes "list_all (\<lambda>(name, fn). list_all (succeeds fn) pgs) fns"
  shows "fst (bench_compare_multiple logger pgs fns w) = Inr ()
    \<and> map shape_of (emitted w (snd (bench_compare_multiple logger pgs fns w))) = expected_shape fns pgs
    \<and> length (filter is_header (emitted w (snd (bench_compare_multiple logger pgs fns w)))) = length fns
    \<and> length (filter is_result (emitted w (snd (bench_compare_multiple logger pgs fns w))))
        = length fns * length pgs
    \<and> length (filter is_timing (emitted w (snd (bench_compare_multiple logger pgs fns w))))
        = length fns * length pgs"
proof -
  let ?out = "emitted w (snd (run_fns pgs fns w))"
  have ok: "fst (run_fns pgs fns w) = Inr ()"
    and sh: "map shape_of ?out = expected_shape fns pgs"
    using completed_run_shape [OF assms] by simp_all
  have h: "length (filter is_header ?out) = length fns"
    using count_by_shape [of is_header _ ?out, OF is_header_shape]
    by (simp add: sh count_expected_shape)
  have r: "length (filter is_result ?out) = length fns * length pgs"
    using count_by_shape [of is_result _ ?out, OF is_result_shape]
    by (simp add: sh count_expected_shape)
  have t: "length (filter is_timing ?out) = length fns * length pgs"
    using count_by_shape [of is_timing _ ?out, OF is_timing_shape]
    by (simp add: sh count_expected_shape)
  show ?thesis
    using ok sh h r t by (simp add: bench_compare_multiple_def)
qed

text \<open>
  C7, amended, at \<open>add\<close> and \<open>sum_seq\<close> with the groups \<open>(1, 2)\<close>, \<open>(3, 4)\<close>: two
  headers, four result lines and four timing lines.
\<close>

theorem completed_run_line_counts_witness:
  "list_all (\<lambda>(name, fn). list_all (succeeds fn) two_groups)
      [(''add'', add_fn), (''sum_seq'', sum_seq_fn)]
   \<and> fst (bench_compare_multiple PlainCallable two_groups
        [(''add'', add_fn), (''sum_seq'', sum_seq_fn)] (init_world frozen_clock)) = Inr ()
   \<and> length (filter is_header (emitted (init_world frozen_clock)
        (snd (bench_compare_multiple PlainCallable two_groups
           [(''add'', add_fn), (''sum_seq'', sum_seq_fn)] (init_world frozen_clock))))) = 2
   \<and> length (filter is_result (emitted (init_world frozen_clock)
        (snd (bench_compare_multiple PlainCallable two_groups
           [(''add'', add_fn), (''sum_seq'', sum_seq_fn)] (init_world frozen_clock))))) = 4
   \<and> length (filter is_timing (emitted (init_world frozen_clock)
        (snd (bench_compare_multiple PlainCallable two_groups
           [(''add'', add_fn), (''sum_seq'', sum_seq_fn)] (init_world frozen_clock))))) = 4"
proof -
  have h: "list_all (\<lambda>(name, fn). list_all (succeeds fn) two_groups)
      [(''add'', add_fn), (''sum_seq'', sum_seq_fn)]"
    by (simp add: two_groups_def scenario_succeeds)
  have n: "length two_groups = 2" by (simp add: two_groups_def)
  show ?thesis
    using h completed_run_line_counts [OF h, of PlainCallable "init_world frozen_clock"]
    by (simp add: n)
qed

text \<open>
  C8: for every input, the lines a run prints, taken without results and elapsed
  times, are an initial segment of \<open>expected_shape\<close>: the blocks of the callables
  come in the order of the mapping, and inside a block the records come in the order
  in which the groups were supplied. A run that an exception ends prints a proper
  initial segment, in the same order.
\<close>

theorem records_in_callable_then_group_order:
  "prefix (map shape_of (emitted w (snd (bench_compare_multiple logger pgs fns w))))
     (expected_shape fns pgs)"
proof -
  from run_fns_shape [of pgs fns w] obtain xs where
    xs: "map shape_of (stdout (snd (run_fns pgs fns w))) = map shape_of (stdout w) @ xs"
      "prefix xs (expected_shape fns pgs)"
    by blast
  have "map shape_of (emitted w (snd (run_fns pgs fns w))) = xs"
    using xs(1) by (rule emitted_shape)
  then show ?thesis using xs(2) by (simp add: bench_compare_multiple_def)
qed

text \<open>
  C9, as stated, fails: \<open>time.time()\<close> is the wall clock, and it can be set back
  between two reads. With readings \<open>5\<close> and then \<open>4\<close> around the call of \<open>add\<close>
  the timing line shows \<open>-1\<close>.
\<close>

theorem negative_elapsed_counterexample:
  "bench_compare_multiple PlainCallable [PTuple [PInt 1, PInt 2]] [(''add'', add_fn)]
      (init_world falling_clock)
   = (Inr (),
      \<lparr>clock = falling_clock, reads = 2,
       stdout = [Title ''add'', Ans ''add'' (PTuple [PInt 1, PInt 2]) (PInt 3), Time (- 1)],
       sink_calls = [],
       attempts = [Positional ''add'' (PTuple [PInt 1, PInt 2])],
       trace = [Printed (Title ''add''),
                ClockRead 0, Invoked (Positional ''add'' (PTuple [PInt 1, PInt 2])), ClockRead 1,
                Printed (Ans ''add'' (PTuple [PInt 1, PInt 2]) (PInt 3)),
                Printed (Time (- 1))]\<rparr>)"
  by (simp add: bench_compare_multiple_def timed_call_eq scenario_calls init_world_def
      print_line_def falling_clock_def)

text \<open>
  C9, amended: the events before every timing line in the output are a clock read,
  an invocation attempt that returned, the next clock read and the result line of
  that attempt, with nothing in between; the elapsed time shown is the difference of
  these two reads, so no printing and no other attempt is measured, and after a
  positional attempt that raised \<open>TypeError\<close> the measurement starts again with the
  read before the fallback call. The elapsed time is non-negative whenever the clock
  did not go back between the two reads. A pair whose invocation raises ends the
  loop with nothing printed for it, so it has no timing line.
\<close>

theorem elapsed_brackets_returning_attempt:
  "(emitted w (snd (bench_compare_multiple logger pgs fns w)) = lines_before @ Time t # lines_after \<longrightarrow>
      (\<exists>pre0 post k a name fn pg v.
          traced w (snd (bench_compare_multiple logger pgs fns w))
            = pre0 @ [ClockRead k, Invoked a, ClockRead (Suc k),
                      Printed (Ans name pg v), Printed (Time t)] @ post
        \<and> printed_of pre0 @ [Ans name pg v] = lines_before
        \<and> printed_of post = lines_after
        \<and> (name, fn) \<in> set fns \<and> pg \<in> set pgs
        \<and> attempt_returns fn name pg a v
        \<and> t = clock w (Suc k) - clock w k
        \<and> (clock w k \<le> clock w (Suc k) \<longrightarrow> 0 \<le> t)))
   \<and> (pair_outcome fn' pg' = Raises e \<longrightarrow>
        run_groups name' fn' (pg' # rest) w' = (Inl e, snd (timed_call name' fn' pg' w'))
        \<and> stdout (snd (timed_call name' fn' pg' w')) = stdout w')"
proof (intro conjI impI)
  let ?w' = "snd (run_fns pgs fns w)"
  assume em: "emitted w (snd (bench_compare_multiple logger pgs fns w)) = lines_before @ Time t # lines_after"
  from run_fns_trace [of pgs "set pgs" fns "set fns" w] obtain seg where
    seg: "trace ?w' = trace w @ seg" "stdout ?w' = stdout w @ printed_of seg"
      "timed_trace (clock w) (set fns) (set pgs) seg"
    by auto
  have tr: "traced w ?w' = seg"
    using seg(1) by (rule traced_append)
  have "emitted w ?w' = printed_of seg"
    using seg(2) by (rule emitted_append)
  then have "printed_of seg = lines_before @ Time t # lines_after"
    using em by (simp add: bench_compare_multiple_def)
  then obtain pre post where
    sp: "seg = pre @ Printed (Time t) # post" "printed_of pre = lines_before" "printed_of post = lines_after"
    using printed_split by blast
  then have "measured (clock w) (set fns) (set pgs) pre t"
    using seg(3) unfolding timed_trace_def by blast
  then obtain pre0 k a name fn pg v where
    m: "pre = pre0 @ [ClockRead k, Invoked a, ClockRead (Suc k), Printed (Ans name pg v)]"
      "(name, fn) \<in> set fns" "pg \<in> set pgs" "attempt_returns fn name pg a v"
      "t = clock w (Suc k) - clock w k"
    unfolding measured_def by blast
  have a1: "traced w (snd (bench_compare_multiple logger pgs fns w))
      = pre0 @ [ClockRead k, Invoked a, ClockRead (Suc k),
                Printed (Ans name pg v), Printed (Time t)] @ post"
    using tr sp(1) m(1) by (simp add: bench_compare_multiple_def)
  have a2: "printed_of pre0 @ [Ans name pg v] = lines_before"
    using sp(2) m(1) by (simp add: printed_of_append)
  have a3: "clock w k \<le> clock w (Suc k) \<longrightarrow> 0 \<le> t"
    using m(5) by simp
  show "\<exists>pre0 post k a name fn pg v.
          traced w (snd (bench_compare_multiple logger pgs fns w))
            = pre0 @ [ClockRead k, Invoked a, ClockRead (Suc k),
                      Printed (Ans name pg v), Printed (Time t)] @ post
        \<and> printed_of pre0 @ [Ans name pg v] = lines_before
        \<and> printed_of post = lines_after
        \<and> (name, fn) \<in> set fns \<and> pg \<in> set pgs
        \<and> attempt_returns fn name pg a v
        \<and> t = clock w (Suc k) - clock w k
        \<and> (clock w k \<le> clock w (Suc k) \<longrightarrow> 0 \<le> t)"
    using a1 a2 sp(3) m(2,3,4,5) a3 by blast
next
  assume "pair_outcome fn' pg' = Raises e"
  then show "run_groups name' fn' (pg' # rest) w' = (Inl e, snd (timed_call name' fn' pg' w'))"
    using failing_pair_prints_nothing by blast
next
  assume "pair_outcome fn' pg' = Raises e"
  then show "stdout (snd (timed_call name' fn' pg' w')) = stdout w'"
    using failing_pair_prints_nothing by blast
qed

text \<open>
  C9, amended, at the scenario of \<open>add\<close> and \<open>sum_seq\<close> with a clock that advances
  by a second from each read to the next, for the timing line of \<open>sum_seq\<close> on
  \<open>(1, 2)\<close>, which the fallback produced; and at \<open>boom\<close> raising \<open>ValueError\<close>,
  which prints nothing.
\<close>

theorem elapsed_brackets_returning_attempt_witness:
  "emitted (init_world ticking_clock)
      (snd (bench_compare_multiple PlainCallable two_groups
         [(''add'', add_fn), (''sum_seq'', sum_seq_fn)] (init_world ticking_clock)))
     = [Title ''add'',
        Ans ''add'' (PTuple [PInt 1, PInt 2]) (PInt 3), Time 1,
        Ans ''add'' (PTuple [PInt 3, PInt 4]) (PInt 7), Time 1,
        Title ''sum_seq'',
        Ans ''sum_seq'' (PTuple [PInt 1, PInt 2]) (PInt 3)]
       @ Time 1 # [Ans ''sum_seq'' (PTuple [PInt 3, PInt 4]) (PInt 7), Time 1]
   \<and> (\<exists>pre0 post k a name fn pg v.
          traced (init_world ticking_clock)
            (snd (bench_compare_multiple PlainCallable two_groups
               [(''add'', add_fn), (''sum_seq'', sum_seq_fn)] (init_world ticking_clock)))
            = pre0 @ [ClockRead k, Invoked a, ClockRead (Suc k),
                      Printed (Ans name pg v), Printed (Time 1)] @ post
        \<and> printed_of pre0 @ [Ans name pg v]
            = [Title ''add'',
               Ans ''add'' (PTuple [PInt 1, PInt 2]) (PInt 3), Time 1,
               Ans ''add'' (PTuple [PInt 3, PInt 4]) (PInt 7), Time 1,
               Title ''sum_seq'',
               Ans ''sum_seq'' (PTuple [PInt 1, PInt 2]) (PInt 3)]
        \<and> printed_of post = [Ans ''sum_seq'' (PTuple [PInt 3, PInt 4]) (PInt 7), Time 1]
        \<and> (name, fn) \<in> set [(''add'', add_fn), (''sum_seq'', sum_seq_fn)]
        \<and> pg \<in> set two_groups
        \<and> attempt_returns fn name pg a v
        \<and> 1 = clock (init_world ticking_clock) (Suc k) - clock (init_world ticking_clock) k
        \<and> (clock (init_world ticking_clock) k \<le> clock (init_world ticking_clock) (Suc k)
             \<longrightarrow> (0::real) \<le> 1))
   \<and> pair_outcome (raising_fn ValueError) (PTuple [PInt 1, PInt 2]) = Raises ValueError
   \<and> run_groups ''boom'' (raising_fn ValueError) (PTuple [PInt 1, PInt 2] # [PTuple [PInt 3, PInt 4]])
        (init_world frozen_clock)
      = (Inl ValueError,
         snd (timed_call ''boom'' (raising_fn ValueError) (PTuple [PInt 1, PInt 2])
           (init_world frozen_clock)))
   \<and> stdout (snd (timed_call ''boom'' (raising_fn ValueError) (PTuple [PInt 1, PInt 2])
        (init_world frozen_clock))) = stdout (init_world frozen_clock)"
proof -
  have h1: "emitted (init_world ticking_clock)
      (snd (bench_compare_multiple PlainCallable two_groups
         [(''add'', add_fn), (''sum_seq'', sum_seq_fn)] (init_world ticking_clock)))
     = [Title ''add'',
        Ans ''add'' (PTuple [PInt 1, PInt 2]) (PInt 3), Time 1,
        Ans ''add'' (PTuple [PInt 3, PInt 4]) (PInt 7), Time 1,
        Title ''sum_seq'',
        Ans ''sum_seq'' (PTuple [PInt 1, PInt 2]) (PInt 3)]
       @ Time 1 # [Ans ''sum_seq'' (PTuple [PInt 3, PInt 4]) (PInt 7), Time 1]"
    unfolding scenario_run by (simp add: emitted_def init_world_def ticking_clock_def)
  have h2: "pair_outcome (raising_fn ValueError) (PTuple [PInt 1, PInt 2]) = Raises ValueError"
    by (rule boom_outcome)
  note inst1 = elapsed_brackets_returning_attempt
    [where w = "init_world ticking_clock" and logger = PlainCallable and pgs = two_groups
       and fns = "[(''add'', add_fn), (''sum_seq'', sum_seq_fn)]" and t = 1
       and lines_before = "[Title ''add'',
        Ans ''add'' (PTuple [PInt 1, PInt 2]) (PInt 3), Time 1,
        Ans ''add'' (PTuple [PInt 3, PInt 4]) (PInt 7), Time 1,
        Title ''sum_seq'',
        Ans ''sum_seq'' (PTuple [PInt 1, PInt 2]) (PInt 3)]"
       and lines_after = "[Ans ''sum_seq'' (PTuple [PInt 3, PInt 4]) (PInt 7), Time 1]",
     THEN conjunct1, THEN mp, OF h1]
  note inst2 = elapsed_brackets_returning_attempt
    [where fn' = "raising_fn ValueError" and pg' = "PTuple [PInt 1, PInt 2]" and e = ValueError
       and name' = "''boom''" and rest = "[PTuple [PInt 3, PInt 4]]"
       and w' = "init_world frozen_clock",
     THEN conjunct2, THEN mp, OF h2]
  show ?thesis
    using h1 inst1 h2 inst2 by (intro conjI) blast+
qed

text \<open>
  C10: with a non-empty callable mapping and no parameter group the run returns
  normally, and what it adds to the output is one header per callable, in the order
  of the mapping; nothing else in the world changes.
\<close>

theorem no_groups_headers_only:
  "fns \<noteq> [] \<Longrightarrow>
     bench_compare_multiple logger [] fns w
       = (Inr (), w\<lparr>stdout := stdout w @ map (\<lambda>(name, fn). Title name) fns,
                    trace := trace w @ map (\<lambda>(name, fn). Printed (Title name)) fns\<rparr>)"
  by (simp add: bench_compare_multiple_def run_fns_no_groups)

text \<open>
  C10 at the mapping of \<open>add\<close> and \<open>sum_seq\<close>: two headers and nothing else.
\<close>

theorem no_groups_headers_only_witness:
  "[(''add'', add_fn), (''sum_seq'', sum_seq_fn)] \<noteq> []
   \<and> fst (bench_compare_multiple PlainCallable [] [(''add'', add_fn), (''sum_seq'', sum_seq_fn)]
        (init_world frozen_clock)) = Inr ()
   \<and> stdout (snd (bench_compare_multiple PlainCallable [] [(''add'', add_fn), (''sum_seq'', sum_seq_fn)]
        (init_world frozen_clock))) = [Title ''add'', Title ''sum_seq'']"
  using no_groups_headers_only [of "[(''add'', add_fn), (''sum_seq'', sum_seq_fn)]" PlainCallable
      "init_world frozen_clock"]
  by (simp add: init_world_def)

end
